theory Spec2Isabelle
  imports Main
begin

section \<open>The Python built-ins used by \<open>app.pyw\<close>\<close>

text \<open>
  Python strings are sequences of code points. They are modelled as \<^typ>\<open>string\<close>, one
  \<^typ>\<open>char\<close> per code point, which covers the code points below 256. On that range the
  white space of \<open>str.strip()\<close> and \<open>str.isspace()\<close> is the set below, and the only decimal
  digits are \<open>0\<close> to \<open>9\<close>.
\<close>

definition py_whitespace :: "char \<Rightarrow> bool" where
  "py_whitespace c = (c \<in> set [CHR 0x09, CHR 0x0A, CHR 0x0B, CHR 0x0C, CHR 0x0D,
                               CHR 0x1C, CHR 0x1D, CHR 0x1E, CHR 0x1F, CHR 0x20,
                               CHR 0x85, CHR 0xA0])"

text \<open>\<open>s.strip()\<close>: white space removed at both ends.\<close>

definition py_strip :: "string \<Rightarrow> string" where
  "py_strip s = rev (dropWhile py_whitespace (rev (dropWhile py_whitespace s)))"

text \<open>\<open>s.isspace()\<close>: at least one character, and every character is white space.\<close>

definition py_isspace :: "string \<Rightarrow> bool" where
  "py_isspace s = (s \<noteq> [] \<and> list_all py_whitespace s)"

text \<open>
  \<open>s.split(sep)\<close> for a separator of one character: the pieces between the separators,
  empty pieces kept, so the result is never the empty list.
\<close>

fun py_split :: "char \<Rightarrow> string \<Rightarrow> string list" where
  "py_split sep [] = [[]]"
| "py_split sep (c # cs) =
     (if c = sep then [] # py_split sep cs
      else (case py_split sep cs of
              [] \<Rightarrow> [[c]]
            | w # ws \<Rightarrow> (c # w) # ws))"

text \<open>
  \<open>sep.join(pieces)\<close>, the inverse of \<open>split\<close>. The program does not call it; it states
  what splitting means.
\<close>

fun py_join :: "char \<Rightarrow> string list \<Rightarrow> string" where
  "py_join sep [] = []"
| "py_join sep [w] = w"
| "py_join sep (w # v # ws) = w @ sep # py_join sep (v # ws)"

text \<open>
  \<open>os.path.basename(p)\<close> of \<open>posixpath\<close>: what follows the last slash, the whole path
  when it has no slash.
\<close>

definition basename :: "string \<Rightarrow> string" where
  "basename p = rev (takeWhile (\<lambda>c. c \<noteq> CHR ''/'') (rev p))"

text \<open>
  \<open>int(s)\<close> on a string, base ten. The white space \<open>int\<close> skips at both ends is smaller
  than that of \<open>strip\<close>: the separators \<open>0x1C\<close> to \<open>0x1F\<close> are not skipped. After an
  optional sign come digits, with single underscores allowed between two digits. CPython
  refuses more than \<open>int_max_str_digits\<close> digits (4300 unless reconfigured). Every
  refusal is a \<open>ValueError\<close>, here \<^const>\<open>None\<close>.
\<close>

definition int_whitespace :: "char \<Rightarrow> bool" where
  "int_whitespace c = (c \<in> set [CHR 0x09, CHR 0x0A, CHR 0x0B, CHR 0x0C, CHR 0x0D,
                                CHR 0x20, CHR 0x85, CHR 0xA0])"

definition is_digit :: "char \<Rightarrow> bool" where
  "is_digit c = (48 \<le> (of_char c :: nat) \<and> (of_char c :: nat) \<le> 57)"

definition digit_value :: "char \<Rightarrow> nat" where
  "digit_value c = of_char c - 48"

fun valid_digits :: "string \<Rightarrow> bool" where
  "valid_digits [] = False"
| "valid_digits [c] = is_digit c"
| "valid_digits (c # d # cs) =
     (is_digit c \<and> (if d = CHR ''_'' then valid_digits cs else valid_digits (d # cs)))"

definition digits_value :: "string \<Rightarrow> nat" where
  "digits_value ds = foldl (\<lambda>a c. 10 * a + digit_value c) 0 (filter is_digit ds)"

definition int_max_str_digits :: nat where
  "int_max_str_digits = 4300"

definition py_int :: "string \<Rightarrow> int option" where
  "py_int s =
     (let t = rev (dropWhile int_whitespace (rev (dropWhile int_whitespace s)));
          (neg, ds) = (case t of
                         [] \<Rightarrow> (False, [])
                       | c # cs \<Rightarrow> if c = CHR ''-'' then (True, cs)
                                   else if c = CHR ''+'' then (False, cs)
                                   else (False, t))
      in if valid_digits ds \<and> length (filter is_digit ds) \<le> int_max_str_digits
         then Some (if neg then - int (digits_value ds) else int (digits_value ds))
         else None)"

text \<open>\<open>str(n)\<close> of an integer, as the f-strings of the messages format it.\<close>

definition digit_char :: "nat \<Rightarrow> char" where
  "digit_char d = ''0123456789'' ! d"

fun nat_digits :: "nat \<Rightarrow> string" where
  "nat_digits n =
     (if n < 10 then [digit_char n]
      else nat_digits (n div 10) @ [digit_char (n mod 10)])"

declare nat_digits.simps [simp del]

definition py_str :: "int \<Rightarrow> string" where
  "py_str n = (if n < 0 then CHR ''-'' # nat_digits (nat (- n)) else nat_digits (nat n))"

section \<open>Constants and exceptions\<close>

definition MIN_WIDTH_IMAGE :: int where "MIN_WIDTH_IMAGE = 400"
definition MAX_WIDTH_IMAGE :: int where "MAX_WIDTH_IMAGE = 3000"
definition MIN_HEIGHT_IMAGE :: int where "MIN_HEIGHT_IMAGE = 200"
definition MAX_HEIGHT_IMAGE :: int where "MAX_HEIGHT_IMAGE = 1500"
definition MIN_NUM_WORDS :: int where "MIN_NUM_WORDS = 200"
definition MAX_NUM_WORDS :: int where "MAX_NUM_WORDS = 400"

text \<open>
  The exceptions that reach the form: the program's own \<open>FormException\<close> with its message,
  the \<open>ValueError\<close> of \<open>int\<close>, with the literal it refused, and whatever the \<open>wordcloud\<close>
  library raises.
\<close>

datatype exn = FormException string | ValueError string | ExternalError string

definition int_of_str :: "string \<Rightarrow> exn + int" where
  "int_of_str s = (case py_int s of None \<Rightarrow> Inl (ValueError s) | Some n \<Rightarrow> Inr n)"

section \<open>FieldUtils and FieldsValidator\<close>

text \<open>
  A widget is modelled by the string its \<open>get\<close> returns: \<open>field.get("1.0", END)\<close> for a
  \<open>Text\<close>, \<open>field.get()\<close> for a \<open>Spinbox\<close> or a \<open>Combobox\<close>.
\<close>

definition get_text_value :: "string \<Rightarrow> string" where
  "get_text_value field = py_strip field"

definition get_box_value :: "string \<Rightarrow> string" where
  "get_box_value field = py_strip field"

definition validate_text_content :: "string \<Rightarrow> exn + unit" where
  "validate_text_content textual_content =
     (if textual_content = [] \<or> textual_content = [CHR 0x0A]
      then Inl (FormException ''Textual content cannot be empty.'')
      else Inr ())"

definition validate_width :: "string \<Rightarrow> exn + unit" where
  "validate_width width =
     (if width = [] then Inl (FormException ''Width cannot be empty.'')
      else case int_of_str width of
             Inl e \<Rightarrow> Inl e
           | Inr w \<Rightarrow>
               if w \<le> 0 then Inl (FormException ''Width cannot be less equal to zero.'')
               else if w < MIN_WIDTH_IMAGE \<or> w > MAX_WIDTH_IMAGE
               then Inl (FormException (''Width needs to be between '' @ py_str MIN_WIDTH_IMAGE
                                        @ '' and '' @ py_str MAX_WIDTH_IMAGE @ ''.''))
               else Inr ())"

definition validate_height :: "string \<Rightarrow> exn + unit" where
  "validate_height height =
     (if height = [] then Inl (FormException ''Height cannot be empty.'')
      else case int_of_str height of
             Inl e \<Rightarrow> Inl e
           | Inr h \<Rightarrow>
               if h \<le> 0 then Inl (FormException ''Height cannot be less equal to zero.'')
               else if h < MIN_HEIGHT_IMAGE \<or> h > MAX_HEIGHT_IMAGE
               then Inl (FormException (''Height needs to be between '' @ py_str MIN_HEIGHT_IMAGE
                                        @ '' and '' @ py_str MAX_HEIGHT_IMAGE @ ''.''))
               else Inr ())"

definition validate_max_words :: "string \<Rightarrow> exn + unit" where
  "validate_max_words max_words =
     (if max_words = [] then Inl (FormException ''Max Words cannot be empty.'')
      else case int_of_str max_words of
             Inl e \<Rightarrow> Inl e
           | Inr m \<Rightarrow>
               if m \<le> 0 then Inl (FormException ''Max Words cannot be less equal to zero.'')
               else if m < MIN_NUM_WORDS \<or> m > MAX_NUM_WORDS
               then Inl (FormException (''Max words needs to be between '' @ py_str MIN_NUM_WORDS
                                        @ '' and '' @ py_str MAX_NUM_WORDS @ ''.''))
               else Inr ())"

definition validate_file_path :: "string \<Rightarrow> exn + unit" where
  "validate_file_path file_path =
     (if file_path = [] \<or> py_isspace (hd (py_split (CHR ''.'') (basename file_path)))
      then Inl (FormException ''File name cannot be empty.'')
      else Inr ())"

section \<open>The image configuration\<close>

text \<open>
  The dataclass \<open>Image\<close>. The form always passes all eight arguments, so the defaults of
  the last three fields are never taken. \<open>background_color\<close> and \<open>stopwords\<close> receive
  \<open>Optional\<close> values; \<open>__post_init__\<close> replaces an absent background colour only.
\<close>

record Image =
  textual_content :: string
  width :: int
  height :: int
  max_words :: int
  background_color :: "string option"
  colormap :: string
  stopwords :: "string set option"
  file_path :: string

definition post_init :: "Image \<Rightarrow> Image" where
  "post_init self =
     (if background_color self = None then self\<lparr>background_color := Some ''black''\<rparr>
      else self)"

definition Image_new ::
  "string \<Rightarrow> int \<Rightarrow> int \<Rightarrow> int \<Rightarrow> string option \<Rightarrow> string \<Rightarrow> string set option \<Rightarrow> string
     \<Rightarrow> Image" where
  "Image_new tc w h mw bg cm sw fp =
     post_init \<lparr>textual_content = tc, width = w, height = h, max_words = mw,
                background_color = bg, colormap = cm, stopwords = sw, file_path = fp\<rparr>"

section \<open>The form\<close>

definition colormap_values :: "string list" where
  "colormap_values =
     [''Accent'', ''Accent_r'', ''Blues'', ''Blues_r'', ''BrBG'', ''BrBG_r'', ''BuGn'',
      ''BuGn_r'', ''BuPu'', ''BuPu_r'', ''CMRmap'', ''CMRmap_r'', ''Dark2'', ''Dark2_r'',
      ''GnBu'', ''GnBu_r'', ''Greens'', ''Greens_r'', ''Greys'', ''Greys_r'', ''OrRd'',
      ''OrRd_r'', ''Oranges'', ''Oranges_r'', ''PRGn'', ''PRGn_r'', ''Paired'',
      ''Paired_r'', ''Pastel1'', ''Pastel1_r'', ''Pastel2'', ''Pastel2_r'', ''PiYG'',
      ''PiYG_r'', ''PuBu'', ''PuBuGn'', ''PuBuGn_r'', ''PuBu_r'', ''PuOr'', ''PuOr_r'',
      ''PuRd'', ''PuRd_r'', ''Purples'', ''Purples_r'', ''RdBu'', ''RdBu_r'', ''RdGy'',
      ''RdGy_r'', ''RdPu'', ''RdPu_r'', ''RdYlBu'', ''RdYlBu_r'', ''RdYlGn'',
      ''RdYlGn_r'', ''Reds'', ''Reds_r'', ''Set1'', ''Set1_r'', ''Set2'', ''Set2_r'',
      ''Set3'', ''Set3_r'', ''Spectral'', ''Spectral_r'', ''Wistia'', ''Wistia_r'',
      ''YlGn'', ''YlGnBu'', ''YlGnBu_r'', ''YlGn_r'', ''YlOrBr'', ''YlOrBr_r'',
      ''YlOrRd'', ''YlOrRd_r'', ''afmhot'', ''afmhot_r'', ''autumn'', ''autumn_r'',
      ''binary'', ''binary_r'', ''bone'', ''bone_r'', ''brg'', ''brg_r'', ''bwr'',
      ''bwr_r'', ''cividis'', ''cividis_r'', ''cool'', ''cool_r'', ''coolwarm'',
      ''coolwarm_r'', ''copper'', ''copper_r'', ''cubehelix'', ''cubehelix_r'', ''flag'',
      ''flag_r'', ''gist_earth'', ''gist_earth_r'', ''gist_gray'', ''gist_gray_r'',
      ''gist_heat'', ''gist_heat_r'', ''gist_ncar'', ''gist_ncar_r'', ''gist_rainbow'',
      ''gist_rainbow_r'', ''gist_stern'', ''gist_stern_r'', ''gist_yarg'',
      ''gist_yarg_r'', ''gnuplot'', ''gnuplot2'', ''gnuplot2_r'', ''gnuplot_r'', ''gray'',
      ''gray_r'', ''hot'', ''hot_r'', ''hsv'', ''hsv_r'', ''inferno'', ''inferno_r'',
      ''jet'', ''jet_r'', ''magma'', ''magma_r'', ''nipy_spectral'', ''nipy_spectral_r'',
      ''ocean'', ''ocean_r'', ''pink'', ''pink_r'', ''plasma'', ''plasma_r'', ''prism'',
      ''prism_r'', ''rainbow'', ''rainbow_r'', ''seismic'', ''seismic_r'', ''spring'',
      ''spring_r'', ''summer'', ''summer_r'', ''tab10'', ''tab10_r'', ''tab20'',
      ''tab20_r'', ''tab20b'', ''tab20b_r'', ''tab20c'', ''tab20c_r'', ''terrain'',
      ''terrain_r'', ''turbo'', ''turbo_r'', ''twilight'', ''twilight_r'',
      ''twilight_shifted'', ''twilight_shifted_r'', ''viridis'', ''viridis_r'',
      ''winter'', ''winter_r'']"

text \<open>
  The state of the form: for each widget the string its \<open>get\<close> returns, the background
  colour attribute (a string, or \<open>None\<close> once a colour picker was cancelled) and the
  value of the \<open>StringVar\<close> of the save path.
\<close>

record Form =
  textual_content_field :: string
  width_field :: string
  height_field :: string
  max_words_field :: string
  background_color_field :: "string option"
  colormap_field :: string
  stopwords_field :: string
  file_path_field :: string

text \<open>\<open>Form.__init__\<close> assigns two of the fields; the widgets come with \<open>build\<close>.\<close>

definition Form_init :: "Form \<Rightarrow> Form" where
  "Form_init self = self\<lparr>background_color_field := Some [], file_path_field := []\<rparr>"

text \<open>\<open>askcolor\<close> returns a pair; its second component is the colour, \<open>None\<close> on cancel.\<close>

definition background_colorpicker :: "string option \<Rightarrow> Form \<Rightarrow> Form" where
  "background_colorpicker colors_1 self = self\<lparr>background_color_field := colors_1\<rparr>"

text \<open>The combobox is created with \<open>current(0)\<close>: the first palette entry is selected.\<close>

definition add_select_colormap_combobox :: "Form \<Rightarrow> Form" where
  "add_select_colormap_combobox self = self\<lparr>colormap_field := colormap_values ! 0\<rparr>"

text \<open>\<open>asksaveasfilename\<close> returns the chosen path, the empty string on cancel.\<close>

definition ask_saveas_file_name :: "string \<Rightarrow> Form \<Rightarrow> Form" where
  "ask_saveas_file_name path self = self\<lparr>file_path_field := path\<rparr>"

definition reset_file_path :: "Form \<Rightarrow> Form" where
  "reset_file_path self = self\<lparr>file_path_field := []\<rparr>"

subsection \<open>Reading and validating the fields\<close>

text \<open>
  Each getter returns, with its result, the steps it took: which widgets it read and
  which values it validated, in the order of the source. An exception ends the getter
  where it is raised.
\<close>

datatype field = TextualContent | Width | Height | MaxWords | BackgroundColor | Colormap
  | Stopwords | FilePath

datatype step = Read field | Validate field

type_synonym 'a logged = "step list \<times> (exn + 'a)"

definition and_then :: "'a logged \<Rightarrow> ('a \<Rightarrow> 'b logged) \<Rightarrow> 'b logged" where
  "and_then m k =
     (case m of
        (l, Inl e) \<Rightarrow> (l, Inl e)
      | (l, Inr v) \<Rightarrow> (case k v of (l', r) \<Rightarrow> (l @ l', r)))"

definition get_textual_content :: "Form \<Rightarrow> string logged" where
  "get_textual_content self =
     (let tc = get_text_value (textual_content_field self)
      in ([Read TextualContent, Validate TextualContent],
          case validate_text_content tc of Inl e \<Rightarrow> Inl e | Inr _ \<Rightarrow> Inr tc))"

definition get_dimensions :: "Form \<Rightarrow> (int \<times> int) logged" where
  "get_dimensions self =
     (let w = get_box_value (width_field self);
          h = get_box_value (height_field self)
      in case validate_width w of
           Inl e \<Rightarrow> ([Read Width, Read Height, Validate Width], Inl e)
         | Inr _ \<Rightarrow>
             ([Read Width, Read Height, Validate Width, Validate Height],
              case validate_height h of
                Inl e \<Rightarrow> Inl e
              | Inr _ \<Rightarrow>
                  (case int_of_str w of
                     Inl e \<Rightarrow> Inl e
                   | Inr wi \<Rightarrow> (case int_of_str h of Inl e \<Rightarrow> Inl e | Inr hi \<Rightarrow> Inr (wi, hi)))))"

definition get_max_words :: "Form \<Rightarrow> int logged" where
  "get_max_words self =
     (let mw = get_box_value (max_words_field self)
      in ([Read MaxWords, Validate MaxWords],
          case validate_max_words mw of Inl e \<Rightarrow> Inl e | Inr _ \<Rightarrow> int_of_str mw))"

definition get_background_color :: "Form \<Rightarrow> string option logged" where
  "get_background_color self =
     ([Read BackgroundColor],
      Inr (case background_color_field self of
             None \<Rightarrow> None
           | Some c \<Rightarrow> if c \<noteq> [] then Some c else None))"

definition get_colormap :: "Form \<Rightarrow> string logged" where
  "get_colormap self = ([Read Colormap], Inr (get_box_value (colormap_field self)))"

definition get_stopwords :: "Form \<Rightarrow> string set option logged" where
  "get_stopwords self =
     (let stopword_values = get_text_value (stopwords_field self)
      in ([Read Stopwords],
          Inr (if stopword_values \<noteq> []
               then Some (set (filter (\<lambda>word. word \<noteq> [])
                                      (map py_strip (py_split (CHR '','') stopword_values))))
               else None)))"

definition get_file_path :: "Form \<Rightarrow> string logged" where
  "get_file_path self =
     (let fp = file_path_field self
      in ([Read FilePath, Validate FilePath],
          case validate_file_path fp of Inl e \<Rightarrow> Inl e | Inr _ \<Rightarrow> Inr fp))"

definition build_image_object :: "Form \<Rightarrow> Image logged" where
  "build_image_object self =
     and_then (get_textual_content self) (\<lambda>tc.
     and_then (get_dimensions self) (\<lambda>(w, h).
     and_then (get_max_words self) (\<lambda>mw.
     and_then (get_background_color self) (\<lambda>bg.
     and_then (get_colormap self) (\<lambda>cm.
     and_then (get_stopwords self) (\<lambda>sw.
     and_then (get_file_path self) (\<lambda>fp.
       ([], Inr (Image_new tc w h mw bg cm sw fp)))))))))"

subsection \<open>The Generate action\<close>

text \<open>
  What the action does to the outside is a list of events: the two calls to the
  \<open>wordcloud\<close> library and the two message boxes, each with its title and text. The
  library is a parameter: \<open>generate img\<close> and \<open>to_file img path\<close> say whether the
  call raises. The fixed arguments \<open>random_state=1\<close> and \<open>collocations=False\<close> are not
  recorded.
\<close>

datatype event =
    WordCloud_generate Image
  | To_file string
  | Showinfo string string
  | Showerror string string

definition success_message :: "string \<Rightarrow> string" where
  "success_message fp =
     ''Your Word Cloud has been successfully generated.''
     @ '' You can find it on the path below:'' @ [CHR 0x0A, CHR 0x0A] @ fp"

text \<open>The body of the \<open>try\<close>: the form after it, the events, the exception if one was raised.\<close>

definition try_body ::
  "(Image \<Rightarrow> exn option) \<Rightarrow> (Image \<Rightarrow> string \<Rightarrow> exn option) \<Rightarrow> Form
     \<Rightarrow> Form \<times> event list \<times> exn option" where
  "try_body generate to_file self =
     (case snd (build_image_object self) of
        Inl e \<Rightarrow> (self, [], Some e)
      | Inr img \<Rightarrow>
          (case generate img of
             Some e \<Rightarrow> (self, [WordCloud_generate img], Some e)
           | None \<Rightarrow>
               (let fp = file_path img
                in case to_file img fp of
                     Some e \<Rightarrow> (self, [WordCloud_generate img, To_file fp], Some e)
                   | None \<Rightarrow>
                       (reset_file_path self,
                        [WordCloud_generate img, To_file fp,
                         Showinfo ''Success'' (success_message fp)],
                        None))))"

text \<open>\<open>except FormException\<close>: that exception alone is handled, any other leaves the action.\<close>

definition generate_word_cloud_image ::
  "(Image \<Rightarrow> exn option) \<Rightarrow> (Image \<Rightarrow> string \<Rightarrow> exn option) \<Rightarrow> Form
     \<Rightarrow> Form \<times> event list \<times> exn option" where
  "generate_word_cloud_image generate to_file self =
     (case try_body generate to_file self of
        (self', evs, Some (FormException msg)) \<Rightarrow> (self', evs @ [Showerror ''error'' msg], None)
      | r \<Rightarrow> r)"

text \<open>A \<open>wordcloud\<close> library whose two calls return normally.\<close>

definition generate_returns :: "Image \<Rightarrow> exn option" where
  "generate_returns img = None"

definition to_file_returns :: "Image \<Rightarrow> string \<Rightarrow> exn option" where
  "to_file_returns img path = None"

subsection \<open>The order of the checks\<close>

text \<open>
  The five validations of a submission with their outcomes, in the order text, width,
  height, max words, file path, and the first of them that raises.
\<close>

definition checks_in_order :: "Form \<Rightarrow> (field \<times> (exn + unit)) list" where
  "checks_in_order self =
     [(TextualContent, validate_text_content (get_text_value (textual_content_field self))),
      (Width, validate_width (get_box_value (width_field self))),
      (Height, validate_height (get_box_value (height_field self))),
      (MaxWords, validate_max_words (get_box_value (max_words_field self))),
      (FilePath, validate_file_path (file_path_field self))]"

fun first_failure :: "(field \<times> (exn + unit)) list \<Rightarrow> (field \<times> exn) option" where
  "first_failure [] = None"
| "first_failure ((fld, Inl e) # cs) = Some (fld, e)"
| "first_failure ((fld, Inr u) # cs) = first_failure cs"

text \<open>The steps of a submission in which every validation passes.\<close>

definition full_log :: "step list" where
  "full_log =
     [Read TextualContent, Validate TextualContent,
      Read Width, Read Height, Validate Width, Validate Height,
      Read MaxWords, Validate MaxWords,
      Read BackgroundColor, Read Colormap, Read Stopwords,
      Read FilePath, Validate FilePath]"

definition steps_until :: "field \<Rightarrow> step list" where
  "steps_until fld = takeWhile (\<lambda>s. s \<noteq> Validate fld) full_log @ [Validate fld]"

subsection \<open>A submission\<close>

text \<open>
  The form of the end-to-end scenario: a text, the smallest dimensions and word count,
  no colour chosen, the colormap and the stop words left as they were created (an empty
  \<open>Text\<close> widget returns a newline), and a path to save to.
\<close>

definition example_form :: Form where
  "example_form =
     \<lparr>textual_content_field = ''hello world hello'' @ [CHR 0x0A],
      width_field = ''400'',
      height_field = ''200'',
      max_words_field = ''200'',
      background_color_field = Some [],
      colormap_field = ''Accent'',
      stopwords_field = [CHR 0x0A],
      file_path_field = ''/tmp/cloud.png''\<rparr>"

definition example_image :: Image where
  "example_image =
     \<lparr>textual_content = ''hello world hello'', width = 400, height = 200, max_words = 200,
      background_color = Some ''black'', colormap = ''Accent'', stopwords = None,
      file_path = ''/tmp/cloud.png''\<rparr>"

section \<open>Properties of the built-ins\<close>

subsection \<open>Trimming\<close>

lemma py_strip_Nil_iff: "py_strip s = [] \<longleftrightarrow> list_all py_whitespace s"
proof (cases "list_all py_whitespace s")
  case True
  then show ?thesis
    by (auto simp: py_strip_def list_all_iff dest: set_dropWhileD)
next
  case False
  let ?t = "dropWhile py_whitespace s"
  from False have ne: "?t \<noteq> []"
    by (simp add: list_all_iff)
  then have "\<not> py_whitespace (hd ?t)" by (rule hd_dropWhile)
  moreover from ne have "hd ?t \<in> set (rev ?t)" by simp
  ultimately have "dropWhile py_whitespace (rev ?t) \<noteq> []"
    by (metis dropWhile_eq_Nil_conv)
  with False show ?thesis by (simp add: py_strip_def)
qed

lemma py_strip_last: "py_strip s \<noteq> [] \<Longrightarrow> \<not> py_whitespace (last (py_strip s))"
proof -
  assume ne: "py_strip s \<noteq> []"
  let ?u = "dropWhile py_whitespace (rev (dropWhile py_whitespace s))"
  from ne have "?u \<noteq> []" by (simp add: py_strip_def)
  then have "\<not> py_whitespace (hd ?u)" by (rule hd_dropWhile)
  moreover have "last (py_strip s) = hd ?u"
    using \<open>?u \<noteq> []\<close> by (simp add: py_strip_def last_rev)
  ultimately show ?thesis by simp
qed

lemma py_strip_not_newline: "py_strip s \<noteq> [CHR 0x0A]"
proof
  assume eq: "py_strip s = [CHR 0x0A]"
  then have "\<not> py_whitespace (last (py_strip s))" using py_strip_last [of s] by simp
  with eq show False by (simp add: py_whitespace_def)
qed

subsection \<open>Splitting\<close>

lemma py_split_not_Nil: "py_split sep s \<noteq> []"
  by (induction s) (auto split: list.splits)

lemma py_join_split: "py_join sep (py_split sep s) = s"
proof (induction s)
  case Nil
  show ?case by simp
next
  case (Cons c cs)
  obtain w ws where sp: "py_split sep cs = w # ws"
    using py_split_not_Nil [of sep cs] by (cases "py_split sep cs") auto
  show ?case
  proof (cases ws)
    case Nil
    with Cons sp show ?thesis by simp
  next
    case (Cons v vs)
    with Cons.IH sp show ?thesis by simp
  qed
qed

lemma py_split_no_sep: "w \<in> set (py_split sep s) \<Longrightarrow> sep \<notin> set w"
  by (induction s arbitrary: w) (auto split: if_splits list.splits)

subsection \<open>Reading and printing integers\<close>

lemmas py_int_eval = py_int_def int_whitespace_def is_digit_def digits_value_def
  digit_value_def int_max_str_digits_def

lemma py_int_Nil: "py_int [] = None"
  by (simp add: py_int_def)

lemma py_int_Some_nonempty: "py_int s = Some n \<Longrightarrow> s \<noteq> []"
  using py_int_Nil by auto

lemma digit_cases: "d < 10 \<Longrightarrow> d \<in> {0, 1, 2, 3, 4, 5, 6, 7, 8, 9::nat}"
  by auto

lemma digit_char_props:
  assumes "d < 10"
  shows "is_digit (digit_char d)" and "digit_value (digit_char d) = d"
  using digit_cases [OF assms]
  by (auto simp: digit_char_def is_digit_def digit_value_def)

lemma nat_digits_all_digits:
  "nat_digits n \<noteq> [] \<and> is_digit (last (nat_digits n)) \<and> list_all is_digit (nat_digits n)"
proof (induction n rule: nat_digits.induct)
  case (1 n)
  show ?case
  proof (cases "n < 10")
    case True
    then show ?thesis by (subst (1 2 3) nat_digits.simps) (simp add: digit_char_props)
  next
    case False
    with 1 have "list_all is_digit (nat_digits (n div 10))" by simp
    moreover have "is_digit (digit_char (n mod 10))" by (simp add: digit_char_props)
    ultimately show ?thesis using False
      by (subst (1 2 3) nat_digits.simps) simp
  qed
qed

lemma digits_value_snoc:
  "is_digit c \<Longrightarrow> digits_value (ds @ [c]) = 10 * digits_value ds + digit_value c"
  by (simp add: digits_value_def)

lemma digits_value_nat_digits: "digits_value (nat_digits n) = n"
proof (induction n rule: nat_digits.induct)
  case (1 n)
  show ?case
  proof (cases "n < 10")
    case True
    then show ?thesis
      by (subst nat_digits.simps) (simp add: digits_value_def digit_char_props)
  next
    case False
    with 1 have "digits_value (nat_digits (n div 10)) = n div 10" by simp
    then show ?thesis using False
      by (subst nat_digits.simps) (simp add: digits_value_snoc digit_char_props)
  qed
qed

lemma valid_digits_all:
  "ds \<noteq> [] \<Longrightarrow> list_all is_digit ds \<Longrightarrow> valid_digits ds"
proof (induction ds rule: valid_digits.induct)
  case (3 c d cs)
  from 3(4) have "is_digit d" by simp
  then have "d \<noteq> CHR ''_''" by (auto simp: is_digit_def)
  with 3 show ?case by simp
qed simp_all

lemma is_digit_not_space: "is_digit c \<Longrightarrow> \<not> int_whitespace c"
  by (auto simp: is_digit_def int_whitespace_def)

lemma is_digit_not_sign: "is_digit c \<Longrightarrow> c \<noteq> CHR ''-'' \<and> c \<noteq> CHR ''+''"
  by (auto simp: is_digit_def)

lemma dropWhile_id: "xs \<noteq> [] \<Longrightarrow> \<not> P (hd xs) \<Longrightarrow> dropWhile P xs = xs"
  by (cases xs) simp_all

lemma int_strip_id:
  assumes "t \<noteq> []" "\<not> int_whitespace (hd t)" "\<not> int_whitespace (last t)"
  shows "rev (dropWhile int_whitespace (rev (dropWhile int_whitespace t))) = t"
proof -
  have "dropWhile int_whitespace t = t" using assms by (simp add: dropWhile_id)
  moreover have "dropWhile int_whitespace (rev t) = rev t"
    using assms by (simp add: dropWhile_id hd_rev)
  ultimately show ?thesis by simp
qed

lemma py_int_nat_digits:
  "py_int (nat_digits n) =
     (if length (nat_digits n) \<le> int_max_str_digits then Some (int n) else None)"
proof -
  let ?t = "nat_digits n"
  have ne: "?t \<noteq> []" and la: "is_digit (last ?t)" and all: "list_all is_digit ?t"
    using nat_digits_all_digits [of n] by simp_all
  from ne all have hd: "is_digit (hd ?t)" by (cases ?t) simp_all
  have strip: "rev (dropWhile int_whitespace (rev (dropWhile int_whitespace ?t))) = ?t"
    using ne hd la by (intro int_strip_id) (simp_all add: is_digit_not_space)
  obtain c cs where t: "?t = c # cs" using ne by (cases ?t) auto
  with hd have c: "c \<noteq> CHR ''-''" "c \<noteq> CHR ''+''" using is_digit_not_sign by auto
  have f: "filter is_digit ?t = ?t" using all by (simp add: list_all_iff)
  have v: "valid_digits ?t" using ne all by (rule valid_digits_all)
  show ?thesis
    unfolding py_int_def strip Let_def
    using c v f digits_value_nat_digits [of n] by (simp add: t)
qed

lemma py_int_neg_nat_digits:
  "py_int (CHR ''-'' # nat_digits n) =
     (if length (nat_digits n) \<le> int_max_str_digits then Some (- int n) else None)"
proof -
  let ?t = "nat_digits n"
  have ne: "?t \<noteq> []" and la: "is_digit (last ?t)" and all: "list_all is_digit ?t"
    using nat_digits_all_digits [of n] by simp_all
  have strip: "rev (dropWhile int_whitespace (rev (dropWhile int_whitespace (CHR ''-'' # ?t))))
      = CHR ''-'' # ?t"
  proof (rule int_strip_id)
    show "\<not> int_whitespace (hd (CHR ''-'' # ?t))" by (simp add: int_whitespace_def)
    show "\<not> int_whitespace (last (CHR ''-'' # ?t))"
      using ne la by (simp add: is_digit_not_space)
  qed simp
  have f: "filter is_digit ?t = ?t" using all by (simp add: list_all_iff)
  have v: "valid_digits ?t" using ne all by (rule valid_digits_all)
  show ?thesis
    unfolding py_int_def strip Let_def
    using v f digits_value_nat_digits [of n] by simp
qed

text \<open>\<open>int(str(n))\<close> is \<open>n\<close>, unless \<open>n\<close> has more digits than \<open>int\<close> accepts.\<close>

lemma py_int_py_str:
  "py_int (py_str n) =
     (if length (nat_digits (nat \<bar>n\<bar>)) \<le> int_max_str_digits then Some n else None)"
  by (cases "n < 0") (simp_all add: py_str_def py_int_nat_digits py_int_neg_nat_digits)

lemma length_nat_digits: "0 < k \<Longrightarrow> n < 10 ^ k \<Longrightarrow> length (nat_digits n) \<le> k"
proof (induction k arbitrary: n)
  case 0
  then show ?case by simp
next
  case (Suc k)
  show ?case
  proof (cases "n < 10")
    case True
    then show ?thesis by (subst nat_digits.simps) simp
  next
    case False
    with Suc.prems have k: "0 < k" by (cases k) auto
    from Suc.prems have "n div 10 < 10 ^ k" by (simp add: less_mult_imp_div_less mult.commute)
    with k have "length (nat_digits (n div 10)) \<le> k" by (rule Suc.IH)
    then show ?thesis using False by (subst nat_digits.simps) simp
  qed
qed

lemma py_str_not_Nil: "py_str n \<noteq> []"
  using nat_digits_all_digits by (simp add: py_str_def)

lemma py_int_py_str_small: "\<bar>n\<bar> < 10000 \<Longrightarrow> py_int (py_str n) = Some n"
proof -
  assume "\<bar>n\<bar> < 10000"
  then have "nat \<bar>n\<bar> < 10 ^ 4" by simp
  then have "length (nat_digits (nat \<bar>n\<bar>)) \<le> 4" by (intro length_nat_digits) simp_all
  then show ?thesis by (simp add: py_int_py_str int_max_str_digits_def)
qed

section \<open>The validators\<close>

lemmas limits = MIN_WIDTH_IMAGE_def MAX_WIDTH_IMAGE_def MIN_HEIGHT_IMAGE_def
  MAX_HEIGHT_IMAGE_def MIN_NUM_WORDS_def MAX_NUM_WORDS_def

lemma validate_width_parsed:
  "py_int s = Some n \<Longrightarrow> (validate_width s = Inr ()) = (400 \<le> n \<and> n \<le> 3000)"
  by (auto simp: validate_width_def int_of_str_def limits dest: py_int_Some_nonempty)

lemma validate_height_parsed:
  "py_int s = Some n \<Longrightarrow> (validate_height s = Inr ()) = (200 \<le> n \<and> n \<le> 1500)"
  by (auto simp: validate_height_def int_of_str_def limits dest: py_int_Some_nonempty)

lemma validate_max_words_parsed:
  "py_int s = Some n \<Longrightarrow> (validate_max_words s = Inr ()) = (200 \<le> n \<and> n \<le> 400)"
  by (auto simp: validate_max_words_def int_of_str_def limits dest: py_int_Some_nonempty)

lemma validate_width_non_numeric:
  "s \<noteq> [] \<Longrightarrow> py_int s = None \<Longrightarrow> validate_width s = Inl (ValueError s)"
  by (simp add: validate_width_def int_of_str_def)

lemma validate_height_non_numeric:
  "s \<noteq> [] \<Longrightarrow> py_int s = None \<Longrightarrow> validate_height s = Inl (ValueError s)"
  by (simp add: validate_height_def int_of_str_def)

lemma validate_max_words_non_numeric:
  "s \<noteq> [] \<Longrightarrow> py_int s = None \<Longrightarrow> validate_max_words s = Inl (ValueError s)"
  by (simp add: validate_max_words_def int_of_str_def)

lemma validate_width_ok: "validate_width s = Inr () \<Longrightarrow> \<exists>n. int_of_str s = Inr n"
  by (auto simp: validate_width_def split: if_splits sum.splits)

lemma validate_height_ok: "validate_height s = Inr () \<Longrightarrow> \<exists>n. int_of_str s = Inr n"
  by (auto simp: validate_height_def split: if_splits sum.splits)

lemma validate_max_words_ok: "validate_max_words s = Inr () \<Longrightarrow> \<exists>n. int_of_str s = Inr n"
  by (auto simp: validate_max_words_def split: if_splits sum.splits)

lemma canonical_cases:
  "py_int (py_str n) = Some n \<or> (py_int (py_str n) = None \<and> 10000 \<le> \<bar>n\<bar>)"
  using py_int_py_str_small [of n] py_int_py_str [of n] by (cases "\<bar>n\<bar> < 10000") auto

lemma validate_width_canonical:
  "(validate_width (py_str n) = Inr ()) = (400 \<le> n \<and> n \<le> 3000)"
  using canonical_cases [of n] validate_width_parsed [of "py_str n" n]
    validate_width_non_numeric [of "py_str n"] py_str_not_Nil [of n]
  by auto

lemma validate_height_canonical:
  "(validate_height (py_str n) = Inr ()) = (200 \<le> n \<and> n \<le> 1500)"
  using canonical_cases [of n] validate_height_parsed [of "py_str n" n]
    validate_height_non_numeric [of "py_str n"] py_str_not_Nil [of n]
  by auto

lemma validate_max_words_canonical:
  "(validate_max_words (py_str n) = Inr ()) = (200 \<le> n \<and> n \<le> 400)"
  using canonical_cases [of n] validate_max_words_parsed [of "py_str n" n]
    validate_max_words_non_numeric [of "py_str n"] py_str_not_Nil [of n]
  by auto

text \<open>
  C2. A string that \<open>int\<close> reads as the integer \<open>n\<close> passes the width validation exactly
  when \<open>400 \<le> n \<le> 3000\<close>, the height validation exactly when \<open>200 \<le> n \<le> 1500\<close> and
  the max-words validation exactly when \<open>200 \<le> n \<le> 400\<close>; the bounds themselves pass.
  In particular this holds of the decimal numeral \<open>str(n)\<close> of every integer \<open>n\<close>.
\<close>

theorem range_validation_iff:
  "(py_int s = Some n \<longrightarrow>
      (validate_width s = Inr () \<longleftrightarrow> 400 \<le> n \<and> n \<le> 3000)
    \<and> (validate_height s = Inr () \<longleftrightarrow> 200 \<le> n \<and> n \<le> 1500)
    \<and> (validate_max_words s = Inr () \<longleftrightarrow> 200 \<le> n \<and> n \<le> 400))
   \<and> (validate_width (py_str n) = Inr () \<longleftrightarrow> 400 \<le> n \<and> n \<le> 3000)
   \<and> (validate_height (py_str n) = Inr () \<longleftrightarrow> 200 \<le> n \<and> n \<le> 1500)
   \<and> (validate_max_words (py_str n) = Inr () \<longleftrightarrow> 200 \<le> n \<and> n \<le> 400)"
  using validate_width_parsed [of s n] validate_height_parsed [of s n]
    validate_max_words_parsed [of s n] validate_width_canonical [of n]
    validate_height_canonical [of n] validate_max_words_canonical [of n]
  by simp

lemma py_int_padded_400: "py_int '' +4_00 '' = Some 400"
  by (simp add: py_int_eval)

lemma py_str_400: "py_str 400 = ''400''"
  by (simp add: py_str_def nat_digits.simps digit_char_def)

theorem range_validation_iff_witness:
  "py_int '' +4_00 '' = Some 400
   \<and> validate_width '' +4_00 '' = Inr ()
   \<and> validate_height '' +4_00 '' = Inr ()
   \<and> validate_max_words '' +4_00 '' = Inr ()
   \<and> validate_width ''400'' = Inr ()
   \<and> validate_height ''400'' = Inr ()
   \<and> validate_max_words ''400'' = Inr ()"
  using range_validation_iff [of "'' +4_00 ''" 400] py_int_padded_400 py_str_400
  by simp

text \<open>
  C3. The text content is validated after \<open>get_text_value\<close> has trimmed it. The
  validation fails when the raw content is empty or holds white space only, and
  succeeds for every other raw content. The validator itself accepts every string that
  is neither empty nor a single newline.
\<close>

theorem text_content_fails_iff_blank:
  "(list_all py_whitespace raw \<longrightarrow>
      validate_text_content (get_text_value raw) =
        Inl (FormException ''Textual content cannot be empty.''))
   \<and> (\<not> list_all py_whitespace raw \<longrightarrow> validate_text_content (get_text_value raw) = Inr ())
   \<and> (tc \<noteq> [] \<and> tc \<noteq> [CHR 0x0A] \<longrightarrow> validate_text_content tc = Inr ())"
  using py_strip_Nil_iff [of raw] py_strip_not_newline [of raw]
  by (simp add: validate_text_content_def get_text_value_def)

theorem text_content_fails_iff_blank_witness:
  "validate_text_content (get_text_value [CHR '' '', CHR 0x09, CHR 0x0A]) =
     Inl (FormException ''Textual content cannot be empty.'')
   \<and> validate_text_content (get_text_value (''hello world'' @ [CHR 0x0A])) = Inr ()
   \<and> validate_text_content ''hello'' = Inr ()"
  using text_content_fails_iff_blank [of "[CHR '' '', CHR 0x09, CHR 0x0A]" "''hello''"]
    text_content_fails_iff_blank [of "''hello world'' @ [CHR 0x0A]" "''hello''"]
  by (simp add: py_whitespace_def)

text \<open>
  The file path: an empty path fails, and so does a path whose base name has only white
  space, and at least one character of it, before the first dot.
\<close>

lemma validate_file_path_blank_stem:
  "p = [] \<or> py_isspace (hd (py_split (CHR ''.'') (basename p))) \<Longrightarrow>
     validate_file_path p = Inl (FormException ''File name cannot be empty.'')"
  by (auto simp: validate_file_path_def)

text \<open>
  C4. The path \<open>/tmp/.png\<close> has the base name \<open>.png\<close>, whose part before the first dot is
  empty. \<open>isspace\<close> is false on the empty string, so the validation accepts the path.
\<close>

theorem validate_file_path_empty_stem:
  "hd (py_split (CHR ''.'') (basename ''/tmp/.png'')) = []
   \<and> validate_file_path ''/tmp/.png'' = Inr ()"
  by (simp add: validate_file_path_def basename_def py_isspace_def)

section \<open>Building the image configuration\<close>

lemma and_then_Inl: "and_then (l, Inl e) k = (l, Inl e)"
  by (simp add: and_then_def)

lemma and_then_Inr: "and_then (l, Inr v) k = (l @ fst (k v), snd (k v))"
  by (simp add: and_then_def split: prod.splits)

lemma snd_and_then_Inr:
  "snd (and_then m k) = Inr r \<longleftrightarrow> (\<exists>v. snd m = Inr v \<and> snd (k v) = Inr r)"
  by (cases m) (auto simp: and_then_def split: sum.splits prod.splits)

lemmas getters = get_textual_content_def get_dimensions_def get_max_words_def
  get_background_color_def get_colormap_def get_stopwords_def get_file_path_def

lemmas eval_defs = build_image_object_def getters and_then_Inl and_then_Inr
  get_text_value_def get_box_value_def py_strip_def py_whitespace_def
  validate_text_content_def validate_width_def validate_height_def validate_max_words_def
  int_of_str_def py_int_eval limits py_str_def nat_digits.simps digit_char_def
  validate_file_path_def basename_def py_isspace_def Image_new_def post_init_def Let_def

text \<open>A configuration that was built was built from what the seven getters returned.\<close>

lemma build_Inr:
  assumes "snd (build_image_object f) = Inr img"
  shows "\<exists>tc w h mw bg cm sw fp.
           snd (get_textual_content f) = Inr tc \<and> snd (get_dimensions f) = Inr (w, h)
         \<and> snd (get_max_words f) = Inr mw \<and> snd (get_background_color f) = Inr bg
         \<and> snd (get_colormap f) = Inr cm \<and> snd (get_stopwords f) = Inr sw
         \<and> snd (get_file_path f) = Inr fp
         \<and> img = Image_new tc w h mw bg cm sw fp"
  using assms by (auto simp: build_image_object_def snd_and_then_Inr split_def)

lemma Image_new_sel:
  "background_color (Image_new tc w h mw bg cm sw fp) =
     (case bg of None \<Rightarrow> Some ''black'' | Some c \<Rightarrow> Some c)"
  "colormap (Image_new tc w h mw bg cm sw fp) = cm"
  "stopwords (Image_new tc w h mw bg cm sw fp) = sw"
  "file_path (Image_new tc w h mw bg cm sw fp) = fp"
  by (simp_all add: Image_new_def post_init_def split: option.splits)

lemma build_colormap:
  "snd (build_image_object f) = Inr img \<Longrightarrow> colormap img = get_box_value (colormap_field f)"
  by (drule build_Inr) (auto simp: Image_new_sel get_colormap_def)

lemma build_background_color:
  "snd (build_image_object f) = Inr img \<Longrightarrow>
     background_color img =
       (case background_color_field f of
          None \<Rightarrow> Some ''black''
        | Some c \<Rightarrow> if c \<noteq> [] then Some c else Some ''black'')"
  by (drule build_Inr) (auto simp: Image_new_sel get_background_color_def split: option.splits)

lemma build_file_path:
  "snd (build_image_object f) = Inr img \<Longrightarrow> file_path img = file_path_field f"
  by (drule build_Inr) (auto simp: Image_new_sel get_file_path_def Let_def split: sum.splits)

lemma build_stopwords:
  "snd (build_image_object f) = Inr img \<Longrightarrow> Inr (stopwords img) = snd (get_stopwords f)"
  by (drule build_Inr) (auto simp: Image_new_sel)

lemma build_example: "build_image_object example_form = (full_log, Inr example_image)"
  by (simp add: eval_defs example_form_def example_image_def full_log_def)

text \<open>
  C5. The stop words of a built configuration: when the raw text is empty or white space
  only there is no set at all (\<open>None\<close>, not the empty set). Otherwise the trimmed text is
  cut at its commas into tokens, which joined by commas give the text back and hold no
  comma themselves, and the set holds the trimmed tokens that are not empty. The raw text
  \<open>a, b ,, c\<close> gives the set of \<open>a\<close>, \<open>b\<close> and \<open>c\<close>.
\<close>

theorem stopwords_parsing:
  assumes "snd (build_image_object f) = Inr img"
  shows "(list_all py_whitespace (stopwords_field f) \<longrightarrow> stopwords img = None)
       \<and> (\<not> list_all py_whitespace (stopwords_field f) \<longrightarrow>
            (\<exists>tokens. py_join (CHR '','') tokens = py_strip (stopwords_field f)
                    \<and> CHR '','' \<notin> \<Union> (set ` set tokens)
                    \<and> stopwords img = Some (set (map py_strip tokens) - {[]})))
       \<and> (stopwords_field f = ''a, b ,, c'' \<longrightarrow> stopwords img = Some {''a'', ''b'', ''c''})"
proof -
  let ?s = "py_strip (stopwords_field f)"
  have sw: "stopwords img =
      (if ?s \<noteq> []
       then Some (set (filter (\<lambda>word. word \<noteq> []) (map py_strip (py_split (CHR '','') ?s))))
       else None)"
    using build_stopwords [OF assms] by (simp add: get_stopwords_def get_text_value_def Let_def)
  have 1: "list_all py_whitespace (stopwords_field f) \<longrightarrow> stopwords img = None"
    using sw by (simp add: py_strip_Nil_iff)
  have 2: "\<not> list_all py_whitespace (stopwords_field f) \<longrightarrow>
            (\<exists>tokens. py_join (CHR '','') tokens = ?s
                    \<and> CHR '','' \<notin> \<Union> (set ` set tokens)
                    \<and> stopwords img = Some (set (map py_strip tokens) - {[]}))"
  proof
    assume "\<not> list_all py_whitespace (stopwords_field f)"
    then have ne: "?s \<noteq> []" by (simp add: py_strip_Nil_iff)
    let ?tokens = "py_split (CHR '','') ?s"
    have "py_join (CHR '','') ?tokens = ?s" by (rule py_join_split)
    moreover have "CHR '','' \<notin> \<Union> (set ` set ?tokens)"
      using py_split_no_sep by fastforce
    moreover have "stopwords img = Some (set (map py_strip ?tokens) - {[]})"
      using sw ne by auto
    ultimately show "\<exists>tokens. py_join (CHR '','') tokens = ?s
                    \<and> CHR '','' \<notin> \<Union> (set ` set tokens)
                    \<and> stopwords img = Some (set (map py_strip tokens) - {[]})"
      by blast
  qed
  have 3: "stopwords_field f = ''a, b ,, c'' \<longrightarrow> stopwords img = Some {''a'', ''b'', ''c''}"
  proof
    assume eq: "stopwords_field f = ''a, b ,, c''"
    show "stopwords img = Some {''a'', ''b'', ''c''}"
      unfolding sw eq by (simp add: py_strip_def py_whitespace_def)
  qed
  from 1 2 3 show ?thesis by blast
qed

lemma build_abc_stopwords:
  "snd (build_image_object (example_form\<lparr>stopwords_field := ''a, b ,, c''\<rparr>)) =
     Inr (example_image\<lparr>stopwords := Some {''a'', ''b'', ''c''}\<rparr>)"
  by (simp add: eval_defs example_form_def example_image_def)

theorem stopwords_parsing_witness:
  "snd (build_image_object (example_form\<lparr>stopwords_field := ''a, b ,, c''\<rparr>)) =
     Inr (example_image\<lparr>stopwords := Some {''a'', ''b'', ''c''}\<rparr>)
   \<and> stopwords (example_image\<lparr>stopwords := Some {''a'', ''b'', ''c''}\<rparr>) =
       Some {''a'', ''b'', ''c''}
   \<and> snd (build_image_object example_form) = Inr example_image
   \<and> stopwords example_image = None"
  using stopwords_parsing [OF build_abc_stopwords] build_abc_stopwords
    stopwords_parsing [of example_form example_image] build_example
  by (simp add: example_form_def py_whitespace_def)

text \<open>
  With the stop words left empty, as the widget returns them (a newline) or as the empty
  string, the configuration is built and its stop words are not the empty set.
\<close>

theorem empty_stopwords_counterexample:
  "snd (build_image_object example_form) = Inr example_image
   \<and> snd (build_image_object (example_form\<lparr>stopwords_field := []\<rparr>)) = Inr example_image
   \<and> stopwords example_image \<noteq> Some {}"
  by (simp add: eval_defs example_form_def example_image_def)

text \<open>
  C6. While the colormap box holds what it was created with, a built configuration has
  the colormap \<open>Accent\<close>, the first entry of the palette list.
\<close>

theorem colormap_default:
  assumes "colormap_field f = colormap_field (add_select_colormap_combobox g)"
    and "snd (build_image_object f) = Inr img"
  shows "colormap img = ''Accent'' \<and> colormap img = hd colormap_values"
  using assms build_colormap [OF assms(2)]
  by (simp add: add_select_colormap_combobox_def colormap_values_def get_box_value_def
      py_strip_def py_whitespace_def)

theorem colormap_default_witness:
  "colormap_field example_form = colormap_field (add_select_colormap_combobox example_form)
   \<and> snd (build_image_object example_form) = Inr example_image
   \<and> colormap example_image = ''Accent'' \<and> colormap example_image = hd colormap_values"
  using colormap_default [of example_form example_form example_image] build_example
  by (simp add: example_form_def add_select_colormap_combobox_def colormap_values_def)

text \<open>
  C7. While the background colour is what \<open>Form.__init__\<close> assigned (the empty string), or
  what a cancelled colour picker left (\<open>None\<close>), a built configuration has the background
  colour \<open>black\<close>.
\<close>

theorem background_default:
  assumes "background_color_field f = background_color_field (Form_init g)
           \<or> background_color_field f = background_color_field (background_colorpicker None g)"
    and "snd (build_image_object f) = Inr img"
  shows "background_color img = Some ''black''"
  using assms(1) build_background_color [OF assms(2)]
  by (auto simp: Form_init_def background_colorpicker_def)

theorem background_default_witness:
  "background_color_field example_form = background_color_field (Form_init example_form)
   \<and> snd (build_image_object example_form) = Inr example_image
   \<and> snd (build_image_object (background_colorpicker None example_form)) = Inr example_image
   \<and> background_color example_image = Some ''black''"
  using background_default [of example_form example_form example_image] build_example
    background_default [of "background_colorpicker None example_form" example_form example_image]
  by (simp add: eval_defs example_form_def example_image_def Form_init_def
      background_colorpicker_def)

section \<open>The Generate action\<close>

lemma generate_FormException:
  "snd (build_image_object f) = Inl (FormException msg) \<Longrightarrow>
     generate_word_cloud_image gen tf f = (f, [Showerror ''error'' msg], None)"
  by (simp add: generate_word_cloud_image_def try_body_def)

lemma generate_ValueError:
  "snd (build_image_object f) = Inl (ValueError s) \<Longrightarrow>
     generate_word_cloud_image gen tf f = (f, [], Some (ValueError s))"
  by (simp add: generate_word_cloud_image_def try_body_def)

lemma generate_success:
  "snd (build_image_object f) = Inr img \<Longrightarrow> gen img = None \<Longrightarrow>
   tf img (file_path img) = None \<Longrightarrow>
     generate_word_cloud_image gen tf f =
       (reset_file_path f,
        [WordCloud_generate img, To_file (file_path img),
         Showinfo ''Success'' (success_message (file_path img))], None)"
  by (simp add: generate_word_cloud_image_def try_body_def Let_def)

text \<open>
  C1. A string that is not empty and that \<open>int\<close> refuses makes each of the three numeric
  validators raise \<open>ValueError\<close>, not \<open>FormException\<close>. A form whose text is valid and whose
  width box holds such a string raises it from the build, and a \<open>ValueError\<close> raised by
  the build leaves the Generate action uncaught: no message box, the form unchanged.
  The empty string, which \<open>int\<close> refuses too, is caught before \<open>int\<close> is called: on it
  each of the three validators raises a \<open>FormException\<close>.
\<close>

theorem non_numeric_raises_ValueError:
  assumes "s \<noteq> []" and "py_int s = None"
  shows "validate_width s = Inl (ValueError s)
       \<and> validate_height s = Inl (ValueError s)
       \<and> validate_max_words s = Inl (ValueError s)
       \<and> (validate_text_content (get_text_value (textual_content_field f)) = Inr ()
            \<and> get_box_value (width_field f) = s
          \<longrightarrow> snd (build_image_object f) = Inl (ValueError s))
       \<and> (snd (build_image_object f) = Inl (ValueError s)
          \<longrightarrow> generate_word_cloud_image gen tf f = (f, [], Some (ValueError s)))
       \<and> py_int [] = None
       \<and> validate_width [] = Inl (FormException ''Width cannot be empty.'')
       \<and> validate_height [] = Inl (FormException ''Height cannot be empty.'')
       \<and> validate_max_words [] = Inl (FormException ''Max Words cannot be empty.'')"
proof -
  have w: "validate_width s = Inl (ValueError s)"
    using assms by (rule validate_width_non_numeric)
  have empty: "py_int [] = None"
    "validate_width [] = Inl (FormException ''Width cannot be empty.'')"
    "validate_height [] = Inl (FormException ''Height cannot be empty.'')"
    "validate_max_words [] = Inl (FormException ''Max Words cannot be empty.'')"
    by (simp_all add: py_int_Nil validate_width_def validate_height_def
        validate_max_words_def)
  have "validate_text_content (get_text_value (textual_content_field f)) = Inr ()
            \<and> get_box_value (width_field f) = s
          \<longrightarrow> snd (build_image_object f) = Inl (ValueError s)"
    using w by (auto simp: build_image_object_def get_textual_content_def get_dimensions_def
        and_then_Inl and_then_Inr)
  then show ?thesis
    using w empty assms validate_height_non_numeric validate_max_words_non_numeric
      generate_ValueError by blast
qed

lemma py_int_abc: "py_int ''abc'' = None"
  by (simp add: py_int_eval)

theorem non_numeric_raises_ValueError_witness:
  "''abc'' \<noteq> [] \<and> py_int ''abc'' = None
   \<and> validate_width ''abc'' = Inl (ValueError ''abc'')
   \<and> validate_height ''abc'' = Inl (ValueError ''abc'')
   \<and> validate_max_words ''abc'' = Inl (ValueError ''abc'')
   \<and> snd (build_image_object (example_form\<lparr>width_field := ''abc''\<rparr>)) =
       Inl (ValueError ''abc'')
   \<and> generate_word_cloud_image generate_returns to_file_returns
        (example_form\<lparr>width_field := ''abc''\<rparr>) =
      (example_form\<lparr>width_field := ''abc''\<rparr>, [], Some (ValueError ''abc''))
   \<and> validate_width [] = Inl (FormException ''Width cannot be empty.'')
   \<and> validate_height [] = Inl (FormException ''Height cannot be empty.'')
   \<and> validate_max_words [] = Inl (FormException ''Max Words cannot be empty.'')"
  using non_numeric_raises_ValueError [of "''abc''" "example_form\<lparr>width_field := ''abc''\<rparr>"
      generate_returns to_file_returns] py_int_abc
  by (simp add: example_form_def get_text_value_def get_box_value_def py_strip_def
      py_whitespace_def validate_text_content_def)

text \<open>
  The width \<open>abc\<close>: the validators raise \<open>ValueError\<close>, and the Generate action ends with
  that exception instead of an error message.
\<close>

theorem non_numeric_counterexample:
  "validate_width ''abc'' = Inl (ValueError ''abc'')
   \<and> validate_height ''abc'' = Inl (ValueError ''abc'')
   \<and> validate_max_words ''abc'' = Inl (ValueError ''abc'')
   \<and> generate_word_cloud_image generate_returns to_file_returns
        (example_form\<lparr>width_field := ''abc''\<rparr>) =
      (example_form\<lparr>width_field := ''abc''\<rparr>, [], Some (ValueError ''abc''))"
  by (simp add: generate_word_cloud_image_def try_body_def eval_defs example_form_def)





text \<open>
  C9. When the configuration is built and both library calls return, the Generate action
  generates from it, writes to the path of the form, shows the success box with a
  message that ends with that path, and leaves the form with an empty save path and
  every other field as it was.
\<close>

theorem successful_generation:
  assumes "snd (build_image_object f) = Inr img"
    and "gen img = None" and "tf img (file_path img) = None"
  shows "generate_word_cloud_image gen tf f =
           (f\<lparr>file_path_field := []\<rparr>,
            [WordCloud_generate img, To_file (file_path_field f),
             Showinfo ''Success'' (success_message (file_path_field f))],
            None)
       \<and> (\<exists>pre. success_message (file_path_field f) = pre @ file_path_field f)
       \<and> file_path_field (f\<lparr>file_path_field := []\<rparr>) = []
       \<and> textual_content_field (f\<lparr>file_path_field := []\<rparr>) = textual_content_field f
       \<and> width_field (f\<lparr>file_path_field := []\<rparr>) = width_field f
       \<and> height_field (f\<lparr>file_path_field := []\<rparr>) = height_field f
       \<and> max_words_field (f\<lparr>file_path_field := []\<rparr>) = max_words_field f
       \<and> background_color_field (f\<lparr>file_path_field := []\<rparr>) = background_color_field f
       \<and> colormap_field (f\<lparr>file_path_field := []\<rparr>) = colormap_field f
       \<and> stopwords_field (f\<lparr>file_path_field := []\<rparr>) = stopwords_field f"
  using generate_success [of f img gen tf, OF assms] build_file_path [OF assms(1)]
  by (simp add: reset_file_path_def success_message_def)

theorem successful_generation_witness:
  "snd (build_image_object example_form) = Inr example_image
   \<and> generate_returns example_image = None
   \<and> to_file_returns example_image (file_path example_image) = None
   \<and> generate_word_cloud_image generate_returns to_file_returns example_form =
       (example_form\<lparr>file_path_field := []\<rparr>,
        [WordCloud_generate example_image, To_file ''/tmp/cloud.png'',
         Showinfo ''Success'' (success_message ''/tmp/cloud.png'')],
        None)"
  using successful_generation [of example_form example_image generate_returns to_file_returns]
    build_example
  by (simp add: generate_returns_def to_file_returns_def example_form_def)

section \<open>The order of validation\<close>

lemma steps_until_simps:
  "steps_until TextualContent = [Read TextualContent, Validate TextualContent]"
  "steps_until Width =
     [Read TextualContent, Validate TextualContent, Read Width, Read Height, Validate Width]"
  "steps_until Height =
     [Read TextualContent, Validate TextualContent, Read Width, Read Height, Validate Width,
      Validate Height]"
  "steps_until MaxWords =
     [Read TextualContent, Validate TextualContent, Read Width, Read Height, Validate Width,
      Validate Height, Read MaxWords, Validate MaxWords]"
  "steps_until FilePath = full_log"
  by (simp_all add: steps_until_def full_log_def)

lemma first_failure_None:
  "first_failure ((fld, r) # cs) = None \<longleftrightarrow> r = Inr () \<and> first_failure cs = None"
  by (cases r) simp_all

lemma build_first_failure:
  assumes "first_failure (checks_in_order f) = Some (fld, e)"
  shows "build_image_object f = (steps_until fld, Inl e)"
proof (cases "validate_text_content (get_text_value (textual_content_field f))")
  case (Inl e1)
  with assms show ?thesis
    by (simp add: checks_in_order_def build_image_object_def get_textual_content_def
        and_then_Inl steps_until_simps)
next
  case tc: (Inr u1)
  show ?thesis
  proof (cases "validate_width (get_box_value (width_field f))")
    case (Inl e2)
    with assms tc show ?thesis
      by (simp add: checks_in_order_def build_image_object_def get_textual_content_def
          get_dimensions_def and_then_Inl and_then_Inr steps_until_simps)
  next
    case w: (Inr u2)
    then obtain wi where wi: "int_of_str (get_box_value (width_field f)) = Inr wi"
      using validate_width_ok by (cases u2) blast
    show ?thesis
    proof (cases "validate_height (get_box_value (height_field f))")
      case (Inl e3)
      with assms tc w show ?thesis
        by (simp add: checks_in_order_def build_image_object_def get_textual_content_def
            get_dimensions_def and_then_Inl and_then_Inr steps_until_simps)
    next
      case h: (Inr u3)
      then obtain hi where hi: "int_of_str (get_box_value (height_field f)) = Inr hi"
        using validate_height_ok by (cases u3) blast
      show ?thesis
      proof (cases "validate_max_words (get_box_value (max_words_field f))")
        case (Inl e4)
        with assms tc w h wi hi show ?thesis
          by (simp add: checks_in_order_def build_image_object_def get_textual_content_def
              get_dimensions_def get_max_words_def and_then_Inl and_then_Inr
              steps_until_simps)
      next
        case m: (Inr u4)
        then obtain mi where mi: "int_of_str (get_box_value (max_words_field f)) = Inr mi"
          using validate_max_words_ok by (cases u4) blast
        show ?thesis
        proof (cases "validate_file_path (file_path_field f)")
          case (Inl e5)
          with assms tc w h m wi hi mi show ?thesis
            by (simp add: checks_in_order_def build_image_object_def getters
                and_then_Inl and_then_Inr steps_until_simps full_log_def Let_def)
        next
          case (Inr u5)
          with assms tc w h m show ?thesis
            by (simp add: checks_in_order_def)
        qed
      qed
    qed
  qed
qed

lemma build_no_failure:
  assumes "first_failure (checks_in_order f) = None"
  shows "\<exists>img. build_image_object f = (full_log, Inr img)"
proof -
  from assms
  have tc: "validate_text_content (get_text_value (textual_content_field f)) = Inr ()"
    and w: "validate_width (get_box_value (width_field f)) = Inr ()"
    and h: "validate_height (get_box_value (height_field f)) = Inr ()"
    and m: "validate_max_words (get_box_value (max_words_field f)) = Inr ()"
    and p: "validate_file_path (file_path_field f) = Inr ()"
    by (simp_all add: checks_in_order_def first_failure_None)
  from w obtain wi where wi: "int_of_str (get_box_value (width_field f)) = Inr wi"
    using validate_width_ok by blast
  from h obtain hi where hi: "int_of_str (get_box_value (height_field f)) = Inr hi"
    using validate_height_ok by blast
  from m obtain mi where mi: "int_of_str (get_box_value (max_words_field f)) = Inr mi"
    using validate_max_words_ok by blast
  show ?thesis
    using tc w h m p wi hi mi
    by (simp add: build_image_object_def getters and_then_Inl and_then_Inr full_log_def
        Let_def)
qed

text \<open>
  C10. The validations run in the order text, width, height, max words, file path, and
  the first that raises ends the build with its exception: the steps taken are the
  steps of a full run up to that validation, so no later field is validated, and no
  later field is read except the height, which is read with the width before the width
  is validated. When the exception is a \<open>FormException\<close>, its message is the one the
  Generate action shows. When no validation raises, every step is taken and the
  configuration is built.
\<close>

theorem validation_order:
  "(first_failure (checks_in_order f) = Some (fld, e) \<longrightarrow>
      build_image_object f = (steps_until fld, Inl e))
   \<and> (first_failure (checks_in_order f) = Some (fld, FormException msg) \<longrightarrow>
      generate_word_cloud_image gen tf f = (f, [Showerror ''error'' msg], None))
   \<and> (first_failure (checks_in_order f) = None \<longrightarrow>
      (\<exists>img. build_image_object f = (full_log, Inr img)))"
  using build_first_failure [of f fld e] build_first_failure [of f fld "FormException msg"]
    build_no_failure [of f] generate_FormException [of f msg gen tf]
  by simp

lemma first_failure_two_invalid:
  "first_failure
     (checks_in_order (example_form\<lparr>width_field := ''150'', height_field := ''x''\<rparr>)) =
     Some (Width, FormException ''Width needs to be between 400 and 3000.'')"
  by (simp add: checks_in_order_def eval_defs example_form_def)

lemma first_failure_example: "first_failure (checks_in_order example_form) = None"
  by (simp add: checks_in_order_def eval_defs example_form_def)

theorem validation_order_witness:
  "first_failure
     (checks_in_order (example_form\<lparr>width_field := ''150'', height_field := ''x''\<rparr>)) =
     Some (Width, FormException ''Width needs to be between 400 and 3000.'')
   \<and> build_image_object (example_form\<lparr>width_field := ''150'', height_field := ''x''\<rparr>) =
       ([Read TextualContent, Validate TextualContent, Read Width, Read Height,
         Validate Width],
        Inl (FormException ''Width needs to be between 400 and 3000.''))
   \<and> generate_word_cloud_image generate_returns to_file_returns
        (example_form\<lparr>width_field := ''150'', height_field := ''x''\<rparr>) =
       (example_form\<lparr>width_field := ''150'', height_field := ''x''\<rparr>,
        [Showerror ''error'' ''Width needs to be between 400 and 3000.''], None)
   \<and> first_failure (checks_in_order example_form) = None
   \<and> build_image_object example_form = (full_log, Inr example_image)"
  using validation_order [of "example_form\<lparr>width_field := ''150'', height_field := ''x''\<rparr>"
      Width "FormException ''Width needs to be between 400 and 3000.''"
      "''Width needs to be between 400 and 3000.''" generate_returns to_file_returns]
    first_failure_two_invalid build_example first_failure_example
  by (simp add: steps_until_simps)

text \<open>
  The width \<open>150\<close> is the first value to fail, and the height, a later field, has been
  read by then.
\<close>

theorem height_read_before_width_fails_counterexample:
  "first_failure (checks_in_order (example_form\<lparr>width_field := ''150''\<rparr>)) =
     Some (Width, FormException ''Width needs to be between 400 and 3000.'')
   \<and> fst (build_image_object (example_form\<lparr>width_field := ''150''\<rparr>)) =
       [Read TextualContent, Validate TextualContent, Read Width, Read Height,
        Validate Width]
   \<and> Read Height \<in> set (fst (build_image_object (example_form\<lparr>width_field := ''150''\<rparr>)))"
  by (simp add: checks_in_order_def eval_defs example_form_def)

end
